theory Spec2Isabelle
  imports Complex_Main
begin

section \<open>Values handed to the simulation framework\<close>

text \<open>
  Both artifacts of the repository, \<^verbatim>\<open>models/gcal_od.ty\<close> and the notebook
  \<^verbatim>\<open>doc/Tutorials/som_retinotopy.ipynb\<close>, are straight-line Python scripts that build
  argument values and hand them to the Topographica framework. A script is embedded as
  the function from its global parameters to the sequence of framework interactions it
  performs, in the order of the source text.

  The argument values are Python objects. Constructor calls of framework classes
  (\<^verbatim>\<open>pattern.Gaussian(size=0.088388, ...)\<close>) are kept as the class name with the keyword
  arguments in source order; arithmetic on number generators, which Python evaluates
  lazily, is kept as an operator node. Python floats are modelled as reals.
\<close>

datatype binop = Add | Sub | Mul

datatype pyval =
    PNone
  | PBool bool
  | PInt int
  | PNum real
  | PStr string
  | PTuple "pyval list"
  | PList "pyval list"
  | PRef string
  | PObj string "(string \<times> pyval) list"
  | PBinOp binop pyval pyval

type_synonym kwargs = "(string \<times> pyval) list"

text \<open>
  The interactions with the framework: an attribute assignment \<^verbatim>\<open>obj.attr = v\<close>, a
  registration \<^verbatim>\<open>topo.sim[name] = v\<close>, and a call \<^verbatim>\<open>f(args, key=value, ...)\<close>.
\<close>

datatype event =
    SetAttr string string pyval
  | SetItem string pyval
  | Call string "pyval list" kwargs

section \<open>Python helpers\<close>

text \<open>\<^verbatim>\<open>sep.join(xs)\<close>\<close>

fun join :: "string \<Rightarrow> string list \<Rightarrow> string" where
  "join sep [] = []"
| "join sep [x] = x"
| "join sep (x # y # ys) = x @ sep @ join sep (y # ys)"

text \<open>\<^verbatim>\<open>int(x)\<close> on a float truncates towards zero.\<close>

definition py_int :: "real \<Rightarrow> int" where
  "py_int x = (if 0 \<le> x then \<lfloor>x\<rfloor> else \<lceil>x\<rceil>)"

text \<open>\<^verbatim>\<open>xrange(n)\<close> and \<^verbatim>\<open>range(n)\<close>: the integers from 0 below n, none when n is not positive.\<close>

definition xrange :: "int \<Rightarrow> int list" where
  "xrange n = [0..n - 1]"

text \<open>\<^verbatim>\<open>"%02d" % n\<close> for a natural number: decimal digits, zero-padded to width two.\<close>

definition digit :: "nat \<Rightarrow> char" where
  "digit d = char_of (48 + d)"

fun str_nat :: "nat \<Rightarrow> string" where
  "str_nat n = (if n < 10 then [digit n] else str_nat (n div 10) @ [digit (n mod 10)])"

definition fmt_02d :: "nat \<Rightarrow> string" where
  "fmt_02d n = (let s = str_nat n in replicate (2 - length s) (CHR ''0'') @ s)"

section \<open>The global parameters of gcal\_od.ty\<close>

datatype dataset = Gaussian | Nature

text \<open>
  The values of \<^verbatim>\<open>p.dataset\<close>, \<^verbatim>\<open>p.num_inputs\<close>, ... as the script reads them (the
  defaults of \<^verbatim>\<open>p.add\<close>, or what the command line put in their place). The selector
  \<^verbatim>\<open>dataset\<close> admits the two listed objects only.
\<close>

record params =
  dataset :: dataset
  num_inputs :: int
  dims :: "string list"
  area :: real
  gain_control :: bool
  retina_density :: real
  lgn_density :: real
  cortex_density :: real
  dim_fraction :: real
  max_disparity :: real
  aff_strength :: real
  exc_strength :: real
  inh_strength :: real
  aff_lr :: real
  exc_lr :: real
  inh_lr :: real

definition default_params :: params where
  "default_params = \<lparr>
     dataset = Gaussian, num_inputs = 2, dims = [''or'', ''od''], area = 1.0,
     gain_control = True, retina_density = 24.0, lgn_density = 24.0,
     cortex_density = 48.0, dim_fraction = 0.7, max_disparity = 4.0,
     aff_strength = 1.0, exc_strength = 1.7, inh_strength = 1.4,
     aff_lr = 0.1, exc_lr = 0.0, inh_lr = 0.3 \<rparr>"

text \<open>The declarations of lines 40 to 107 (documentation strings left out).\<close>

definition number_decl :: "pyval \<Rightarrow> pyval \<Rightarrow> pyval" where
  "number_decl d b = PObj ''param.Number'' [(''default'', d), (''bounds'', b)]"

definition density_decl :: "pyval \<Rightarrow> pyval" where
  "density_decl d = PObj ''param.Number''
     [(''default'', d), (''bounds'', PTuple [PInt 0, PNone]),
      (''inclusive_bounds'', PTuple [PBool False, PBool True])]"

definition gcal_od_declarations :: kwargs where
  "gcal_od_declarations =
    [(''dataset'', PObj ''param.ObjectSelector''
        [(''default'', PStr ''Gaussian''), (''objects'', PList [PStr ''Gaussian'', PStr ''Nature''])]),
     (''num_inputs'', PObj ''param.Integer''
        [(''default'', PInt 2), (''bounds'', PTuple [PInt 1, PNone])]),
     (''dims'', PObj ''param.List''
        [(''default'', PList [PStr ''or'', PStr ''od'']), (''class_'', PRef ''str'')]),
     (''area'', density_decl (PNum 1.0)),
     (''gain_control'', PObj ''param.Boolean'' [(''default'', PBool True)]),
     (''retina_density'', density_decl (PNum 24.0)),
     (''lgn_density'', density_decl (PNum 24.0)),
     (''cortex_density'', density_decl (PNum 48.0)),
     (''dim_fraction'', number_decl (PNum 0.7) (PTuple [PNum 0.0, PNum 1.0])),
     (''max_disparity'', number_decl (PNum 4.0) (PTuple [PInt 0, PNone])),
     (''aff_strength'', number_decl (PNum 1.0) (PTuple [PNum 0.0, PNone])),
     (''exc_strength'', number_decl (PNum 1.7) (PTuple [PNum 0.0, PNone])),
     (''inh_strength'', number_decl (PNum 1.4) (PTuple [PNum 0.0, PNone])),
     (''aff_lr'', number_decl (PNum 0.1) (PTuple [PNum 0.0, PNone])),
     (''exc_lr'', number_decl (PNum 0.0) (PTuple [PNum 0.0, PNone])),
     (''inh_lr'', number_decl (PNum 0.3) (PTuple [PNum 0.0, PNone]))]"

section \<open>gcal\_od.ty\<close>

subsection \<open>Simulation type (lines 123 to 145)\<close>

definition center_polarities :: "string list" where
  "center_polarities = [''On'', ''Off'']"

definition eyes :: "params \<Rightarrow> string list" where
  "eyes p = (if ''od'' \<in> set (dims p) \<or> ''dy'' \<in> set (dims p)
             then [''Left'', ''Right''] else [[]])"

definition disparity_bound :: "params \<Rightarrow> real" where
  "disparity_bound p =
     (if ''dy'' \<in> set (dims p) then max_disparity p * 0.041665 / 2.0 else 0.0)"

definition position_bound :: "params \<Rightarrow> real" where
  "position_bound p =
     (if ''dy'' \<in> set (dims p) \<and> max_disparity p > 0.0
      then area p / 2.0 + 0.2 else area p / 2.0 + 0.25)"

definition input_seed :: int where
  "input_seed = 500"

definition num_aff :: "params \<Rightarrow> nat" where
  "num_aff p = length center_polarities * length (eyes p)"

subsection \<open>Input patterns (lines 150 to 182)\<close>

definition UniformRandom :: "pyval \<Rightarrow> pyval \<Rightarrow> int \<Rightarrow> pyval" where
  "UniformRandom lbound ubound seed = PObj ''numbergen.UniformRandom''
     [(''lbound'', lbound), (''ubound'', ubound), (''seed'', PInt seed)]"

text \<open>\<^verbatim>\<open>(-1)**(e=='Left')\<close>: the truth value is the exponent.\<close>

definition eye_sign :: "string \<Rightarrow> int" where
  "eye_sign e = (- 1) ^ (if e = ''Left'' then 1 else 0)"

definition total_num_inputs :: "params \<Rightarrow> int" where
  "total_num_inputs p = py_int (of_int (num_inputs p) * area p * area p)"

text \<open>
  The scale of a Gaussian: the conditional expression is parenthesised and selects the
  factor of \<^verbatim>\<open>p.dim_fraction\<close> only.
\<close>

definition gaussian_scale :: "params \<Rightarrow> string \<Rightarrow> int \<Rightarrow> pyval" where
  "gaussian_scale p e i =
     PBinOp Add (PNum (1 - dim_fraction p))
       (PBinOp Mul (PNum (dim_fraction p))
          (if e = ''Right''
           then PBinOp Sub (PNum 2.0) (UniformRandom (PInt 0) (PInt 2) (input_seed + 5 + 6 * i))
           else UniformRandom (PInt 0) (PInt 2) (input_seed + 5 + 6 * i)))"

definition gaussian_input :: "params \<Rightarrow> string \<Rightarrow> int \<Rightarrow> pyval" where
  "gaussian_input p e i = PObj ''pattern.Gaussian''
     [(''x'', PBinOp Add
         (UniformRandom (PNum (- position_bound p)) (PNum (position_bound p)) (input_seed + 6 * i))
         (PBinOp Mul
            (UniformRandom (PNum (- disparity_bound p)) (PNum (disparity_bound p))
               (input_seed + 1 + 6 * i))
            (PInt (eye_sign e)))),
      (''y'', UniformRandom (PNum (- 0.75)) (PNum 0.75) (input_seed + 2 + 6 * i)),
      (''orientation'', UniformRandom (PNum (- pi)) (PNum pi) (input_seed + 3 + 6 * i)),
      (''size'', PNum 0.088388),
      (''aspect_ratio'', PNum 4.66667),
      (''scale'', gaussian_scale p e i)]"

definition image_filenames :: "string list" where
  "image_filenames =
     map (\<lambda>i. ''images/shouval/combined'' @ fmt_02d (nat (i + 1)) @ ''.png'') (xrange 25)"

text \<open>
  The scale of an image: here the conditional expression is not parenthesised, and
  Python's conditional binds weaker than \<^verbatim>\<open>+\<close> and \<^verbatim>\<open>*\<close>, so it selects between the
  whole sum and the bare generator.
\<close>

definition nature_scale :: "params \<Rightarrow> string \<Rightarrow> int \<Rightarrow> pyval" where
  "nature_scale p e i =
     (if e = ''Right''
      then PBinOp Add (PNum (1 - dim_fraction p))
             (PBinOp Mul (PNum (dim_fraction p))
                (PBinOp Sub (PNum 2.0)
                   (UniformRandom (PInt 0) (PInt 2) (input_seed + 4 + 5 * i))))
      else UniformRandom (PInt 0) (PInt 2) (input_seed + 4 + 5 * i))"

definition nature_input :: "params \<Rightarrow> string \<Rightarrow> string \<times> int \<Rightarrow> pyval" where
  "nature_input p e fi = (case fi of (f, i) \<Rightarrow> PObj ''pattern.image.FileImage''
     [(''filename'', PStr f), (''size'', PNum 10.0), (''cache_image'', PBool False),
      (''x'', PBinOp Add
         (UniformRandom (PNum (- 0.75)) (PNum 0.75) (input_seed + 5 * i))
         (PBinOp Mul
            (UniformRandom (PNum (- disparity_bound p)) (PNum (disparity_bound p))
               (input_seed + 1 + 5 * i))
            (PInt (eye_sign e)))),
      (''y'', UniformRandom (PNum (- 0.75)) (PNum 0.75) (input_seed + 2 + 5 * i)),
      (''orientation'', UniformRandom (PNum (- pi / 8)) (PNum (pi / 8)) (input_seed + 3 + 5 * i)),
      (''scale'', nature_scale p e i)])"

definition inputs :: "params \<Rightarrow> string \<Rightarrow> pyval list" where
  "inputs p e = (case dataset p of
       Gaussian \<Rightarrow> map (gaussian_input p e) (xrange (total_num_inputs p))
     | Nature \<Rightarrow> map (nature_input p e)
         (zip image_filenames (xrange (int (length image_filenames)))))"

definition combined_inputs :: "params \<Rightarrow> string \<Rightarrow> pyval" where
  "combined_inputs p e = (case dataset p of
       Gaussian \<Rightarrow> PObj ''pattern.SeparatedComposite''
         [(''min_separation'', PNum (2.2 * 0.27083)), (''generators'', PList (inputs p e))]
     | Nature \<Rightarrow> PObj ''pattern.Selector'' [(''generators'', PList (inputs p e))])"

subsection \<open>Retina and LGN sheets (lines 185 to 204)\<close>

definition BoundingBox :: "real \<Rightarrow> pyval" where
  "BoundingBox r = PObj ''sheet.BoundingBox'' [(''radius'', PNum r)]"

definition lgn_sheet_type :: "params \<Rightarrow> string" where
  "lgn_sheet_type p =
     (if gain_control p then ''sheet.optimized.SettlingCFSheet_Opt'' else ''sheet.CFSheet'')"

definition lgn_sheet_args :: "params \<Rightarrow> kwargs" where
  "lgn_sheet_args p =
     (if gain_control p
      then [(''output_fns'', PList [PObj ''transferfn.misc.HalfRectify'' []]),
            (''tsettle'', PInt 2), (''strict_tsettle'', PInt 1)]
      else [(''output_fns'', PList [PObj ''transferfn.PiecewiseLinear''
              [(''lower_bound'', PNum 0.0), (''upper_bound'', PNum 1.0)]])])"

definition lgn_sheet :: "params \<Rightarrow> string \<Rightarrow> string \<Rightarrow> event" where
  "lgn_sheet p e l = SetItem (e @ ''LGN'' @ l) (PObj (lgn_sheet_type p)
     ([(''nominal_density'', PNum (lgn_density p)),
       (''row_precedence'', PNum (if l = ''On'' then 0.6 else 0.7)),
       (''nominal_bounds'', BoundingBox (area p / 2.0 + 0.25 + 0.5)),
       (''measure_maps'', PBool False)] @ lgn_sheet_args p))"

definition subcortical :: "params \<Rightarrow> string \<Rightarrow> event list" where
  "subcortical p e =
     SetItem (e @ ''Retina'') (PObj ''sheet.GeneratorSheet''
       [(''nominal_density'', PNum (retina_density p)),
        (''input_generator'', combined_inputs p e),
        (''period'', PNum 1.0), (''phase'', PNum 0.05),
        (''nominal_bounds'', BoundingBox (area p / 2.0 + 0.25 + 0.375 + 0.5))])
     # map (lgn_sheet p e) center_polarities"

subsection \<open>V1 sheet (lines 208 to 213)\<close>

definition v1_sheet :: "params \<Rightarrow> event list" where
  "v1_sheet p =
     [SetItem ''V1'' (PObj ''sheet.SettlingCFSheet''
        [(''nominal_density'', PNum (cortex_density p)),
         (''tsettle'', PInt 16), (''plastic'', PBool True),
         (''nominal_bounds'', BoundingBox (area p / 2.0)),
         (''output_fns'', PList [PObj ''transferfn.misc.HomeostaticResponse'' []])]),
      SetAttr ''topo.sim[V1]'' ''joint_norm_fn''
        (PRef ''topo.sheet.optimized.compute_joint_norm_totals_opt'')]"

subsection \<open>Projection defaults (lines 111 to 116)\<close>

definition projection_defaults :: "event list" where
  "projection_defaults =
     [SetAttr ''projection.CFProjection'' ''cf_shape''
        (PObj ''pattern.Disk'' [(''smoothing'', PNum 0.0)]),
      SetAttr ''projection.CFProjection'' ''weights_generator'' (PObj ''pattern.Constant'' []),
      SetAttr ''projection.CFProjection'' ''response_fn''
        (PObj ''responsefn.optimized.CFPRF_DotProduct_opt'' []),
      SetAttr ''projection.CFProjection'' ''learning_fn''
        (PObj ''learningfn.optimized.CFPLF_Hebbian_opt'' []),
      SetAttr ''projection.CFProjection'' ''weights_output_fns''
        (PList [PObj ''transferfn.optimized.CFPOF_DivisiveNormalizeL1_opt'' []]),
      SetAttr ''projection.SharedWeightCFProjection'' ''response_fn''
        (PObj ''responsefn.optimized.CFPRF_DotProduct_opt'' [])]"

subsection \<open>Connections (lines 219 to 273)\<close>

definition unit_gaussian :: "real \<Rightarrow> pyval" where
  "unit_gaussian s = PObj ''pattern.Gaussian''
     [(''size'', PNum s), (''aspect_ratio'', PNum 1.0),
      (''output_fns'', PList [PObj ''transferfn.DivisiveNormalizeL1'' []])]"

definition centerg :: pyval where
  "centerg = unit_gaussian 0.07385"

definition surroundg :: pyval where
  "surroundg = unit_gaussian 0.29540"

definition on_weights :: pyval where
  "on_weights = PObj ''pattern.Composite''
     [(''generators'', PList [centerg, surroundg]), (''operator'', PRef ''numpy.subtract'')]"

definition off_weights :: pyval where
  "off_weights = PObj ''pattern.Composite''
     [(''generators'', PList [surroundg, centerg]), (''operator'', PRef ''numpy.subtract'')]"

definition lgn_surroundg :: pyval where
  "lgn_surroundg = unit_gaussian 0.25"

definition connect :: "string \<Rightarrow> string \<Rightarrow> kwargs \<Rightarrow> event" where
  "connect src dest kw = Call ''topo.sim.connect'' [PStr src, PStr dest] kw"

definition retina_afferent :: "string \<Rightarrow> string \<Rightarrow> event" where
  "retina_afferent e l = connect (e @ ''Retina'') (e @ ''LGN'' @ l)
     [(''delay'', PNum 0.05), (''strength'', PNum 2.33), (''name'', PStr ''Afferent''),
      (''connection_type'', PRef ''projection.SharedWeightCFProjection''),
      (''nominal_bounds_template'', BoundingBox 0.375),
      (''weights_generator'', if l = ''On'' then on_weights else off_weights)]"

definition lateral_gc :: "params \<Rightarrow> string \<Rightarrow> string \<Rightarrow> string \<Rightarrow> event" where
  "lateral_gc p e l e2 = connect (e2 @ ''LGN'' @ l) (e @ ''LGN'' @ l)
     [(''delay'', PNum 0.05), (''name'', PStr (e2 @ ''LateralGC'')),
      (''dest_port'', PStr ''Activity''),
      (''activity_group'',
         PTuple [PNum 0.6, PObj ''DivideWithConstant'' [(''c'', PNum 0.11)]]),
      (''connection_type'', PRef ''projection.SharedWeightCFProjection''),
      (''strength'', PNum (0.6 / real (length (eyes p)))),
      (''weights_generator'', lgn_surroundg),
      (''nominal_bounds_template'', BoundingBox 0.25)]"

definition lgn_afferent :: "params \<Rightarrow> string \<Rightarrow> string \<Rightarrow> event" where
  "lgn_afferent p e l = connect (e @ ''LGN'' @ l) ''V1''
     [(''delay'', PNum 0.05),
      (''dest_port'', PTuple [PStr ''Activity'', PStr ''JointNormalize'', PStr ''Afferent'']),
      (''connection_type'', PRef ''projection.CFProjection''),
      (''strength'', PNum (aff_strength p * (if \<not> gain_control p then 1.0 else 1.5))),
      (''name'', PStr (e @ ''LGN'' @ l @ ''Afferent'')),
      (''weights_generator'',
         PObj ''pattern.random.GaussianCloud'' [(''gaussian_size'', PNum (2 * 0.27083))]),
      (''nominal_bounds_template'', BoundingBox 0.27083),
      (''learning_rate'', PNum (aff_lr p))]"

text \<open>The body of the nested loop over eyes and centre polarities.\<close>

definition lgn_connections :: "params \<Rightarrow> string \<Rightarrow> string \<Rightarrow> event list" where
  "lgn_connections p e l =
     retina_afferent e l
     # (if gain_control p then map (lateral_gc p e l) (eyes p) else [])
     @ [lgn_afferent p e l]"

definition v1_lateral :: "params \<Rightarrow> event list" where
  "v1_lateral p =
     [connect ''V1'' ''V1''
        [(''delay'', PNum 0.05), (''strength'', PNum (exc_strength p)),
         (''name'', PStr ''LateralExcitatory''),
         (''connection_type'', PRef ''projection.CFProjection''),
         (''learning_rate'', PNum (exc_lr p)),
         (''nominal_bounds_template'', BoundingBox 0.104),
         (''weights_generator'',
            PObj ''pattern.Gaussian'' [(''aspect_ratio'', PNum 1.0), (''size'', PNum 0.05)])],
      connect ''V1'' ''V1''
        [(''delay'', PNum 0.05), (''strength'', PNum (- 1.0 * inh_strength p)),
         (''name'', PStr ''LateralInhibitory''),
         (''connection_type'', PRef ''projection.CFProjection''),
         (''learning_rate'', PNum (inh_lr p)),
         (''nominal_bounds_template'', BoundingBox 0.22917),
         (''weights_generator'',
            PObj ''pattern.random.GaussianCloud'' [(''gaussian_size'', PNum 0.15)])]]"

subsection \<open>Model editor layout (lines 277 to 289)\<close>

text \<open>The divisions of integers by integers are Python 2 floor divisions.\<close>

definition vs :: "params \<Rightarrow> pyval list" where
  "vs p = replicate (num_aff p - 1) PNone @ [PStr ''V1''] @ replicate (num_aff p) PNone"

definition ls :: "params \<Rightarrow> pyval list" where
  "ls p = concat (map (\<lambda>e. concat (map (\<lambda>l. [PStr (e @ ''LGN'' @ l)] @ [PNone])
                              center_polarities)) (eyes p))"

definition es :: "params \<Rightarrow> pyval list" where
  "es p = concat (map (\<lambda>e. replicate (length center_polarities div 2) PNone
                        @ [PStr (e @ ''Retina''), PNone]
                        @ replicate (length center_polarities div 2) PNone) (eyes p))"

definition grid_layout :: "params \<Rightarrow> event" where
  "grid_layout p = Call ''topo.sim.grid_layout'' [PList [PList (vs p), PList (ls p), PList (es p)]]
     [(''xstep'', PInt (70 div int (length (eyes p)))), (''ystep'', PInt 200),
      (''item_scale'', PNum (0.6 / real (length (eyes p))))]"

subsection \<open>Analysis defaults (lines 295 to 313)\<close>

definition preference_maps :: "(string \<times> string list) list" where
  "preference_maps =
     [(''od'', [''Ocular Preference'']),
      (''or'', [''Orientation Preference'']),
      (''dy'', [''PhaseDisparity Preference''])]"

definition pgs :: "params \<Rightarrow> string list" where
  "pgs p = concat (map snd (filter (\<lambda>(n, m). n \<in> set (dims p)) preference_maps))
           @ [''Position Preference'', ''Activity'']"

definition analysis_defaults :: "params \<Rightarrow> event list" where
  "analysis_defaults p =
     [SetAttr ''topo.command'' ''default_analysis_plotgroups'' (PList (map PStr (pgs p))),
      SetAttr ''MeasureResponseCommand'' ''durations''
        (PList [PNum (if gain_control p then 1.0 else 0.175)]),
      SetAttr ''MeasureResponseCommand.pattern_response_fn'' ''apply_output_fns''
        (PBool (gain_control p)),
      SetAttr ''topo.analysis.featureresponses.FeatureMaps'' ''selectivity_multiplier''
        (PNum 2.0)]"

subsection \<open>The script\<close>

text \<open>
  The statements of gcal\_od.ty in source order (imports left out). Every loop of the
  source runs over a list, so the script is a concatenation of the events of its loop
  bodies.
\<close>

definition gcal_od :: "params \<Rightarrow> event list" where
  "gcal_od p =
     [Call ''p.add'' [] gcal_od_declarations]
     @ projection_defaults
     @ [SetAttr ''topo.sim'' ''name'' (PStr (''gcal_'' @ join ''_'' (dims p))),
        Call ''numpy.random.seed'' [PTuple [PInt 500, PInt 500]] []]
     @ concat (map (subcortical p) (eyes p))
     @ v1_sheet p
     @ concat (map (\<lambda>e. concat (map (lgn_connections p e) center_polarities)) (eyes p))
     @ v1_lateral p
     @ [grid_layout p]
     @ analysis_defaults p"

section \<open>The notebook som\_retinotopy.ipynb\<close>

text \<open>
  The code cells of the notebook, run in order. The parameters are those of the
  notebook's own \<^verbatim>\<open>p.add\<close>; the second code cell then overwrites both densities.
  The imports, the IPython magics, \<^verbatim>\<open>print\<close>, and the expression statements that only
  read and display earlier results (attribute reads, their sums and products, and the
  numpy and holoviews methods \<^verbatim>\<open>min\<close>, \<^verbatim>\<open>max\<close> and \<^verbatim>\<open>select\<close> applied to them) are
  left out. A value that only the framework determines (the simulation time, the result
  of a measurement) is a \<^const>\<open>PRef\<close>.
\<close>

record som_params =
  som_retina_density :: real
  som_cortex_density :: real
  som_input_seed :: real
  som_weight_seed :: real
  radius_0 :: real
  alpha_0 :: real

definition default_som_params :: som_params where
  "default_som_params = \<lparr>
     som_retina_density = 10.0, som_cortex_density = 10.0, som_input_seed = 0,
     som_weight_seed = 0, radius_0 = 1.0, alpha_0 = 0.42 \<rparr>"

definition som_declarations :: kwargs where
  "som_declarations =
    [(''retina_density'', density_decl (PNum 10.0)),
     (''cortex_density'', density_decl (PNum 10.0)),
     (''input_seed'', number_decl (PInt 0) (PTuple [PInt 0, PNone])),
     (''weight_seed'', number_decl (PInt 0) (PTuple [PInt 0, PNone])),
     (''radius_0'', number_decl (PNum 1.0) (PTuple [PInt 0, PNone])),
     (''alpha_0'', number_decl (PNum 0.42) (PTuple [PInt 0, PNone]))]"

text \<open>\<^verbatim>\<open>p.retina_density=10\<close> and \<^verbatim>\<open>p.cortex_density=10\<close>\<close>

definition customize :: "som_params \<Rightarrow> som_params" where
  "customize p = p\<lparr>som_retina_density := 10, som_cortex_density := 10\<rparr>"

definition ExponentialDecay :: "real \<Rightarrow> real \<Rightarrow> pyval" where
  "ExponentialDecay starting_value time_constant = PObj ''numbergen.ExponentialDecay''
     [(''starting_value'', PNum starting_value), (''time_constant'', PNum time_constant)]"

definition input_pattern :: "som_params \<Rightarrow> pyval" where
  "input_pattern p = PObj ''pattern.Gaussian''
     [(''scale'', PNum 1.0), (''size'', PNum (2 * sqrt (2.0 * 0.1 * 24.0) / 24.0)),
      (''aspect_ratio'', PNum 1.0), (''orientation'', PInt 0),
      (''x'', PObj ''numbergen.UniformRandom''
         [(''name'', PStr ''xgen''), (''lbound'', PNum (- 0.5)), (''ubound'', PNum 0.5),
          (''seed'', PNum (som_input_seed p))]),
      (''y'', PObj ''numbergen.UniformRandom''
         [(''name'', PStr ''ygen''), (''lbound'', PNum (- 0.5)), (''ubound'', PNum 0.5),
          (''seed'', PNum (som_input_seed p))])]"

definition model_definition :: "som_params \<Rightarrow> event list" where
  "model_definition p =
     [SetAttr ''param.Dynamic'' ''time_dependent'' (PBool True),
      SetAttr ''numbergen.TimeAwareRandomState'' ''time_dependent'' (PBool True),
      SetAttr ''sheet.GeneratorSheet'' ''period'' (PNum 1.0),
      SetAttr ''sheet.GeneratorSheet'' ''phase'' (PNum 0.05),
      SetAttr ''sheet.GeneratorSheet'' ''nominal_density'' (PNum (som_retina_density p)),
      SetItem ''Retina'' (PObj ''sheet.GeneratorSheet'' [(''input_generator'', input_pattern p)]),
      SetItem ''V1'' (PObj ''sheet.CFSheet''
        [(''nominal_density'', PNum (som_cortex_density p)),
         (''output_fns'', PList [PObj ''transferfn.misc.KernelMax''
            [(''density'', PNum (som_cortex_density p)),
             (''kernel_radius'', PObj ''numbergen.BoundedNumber''
                [(''bounds'', PTuple [PNum (0.5 / 40), PNone]),
                 (''generator'', ExponentialDecay (radius_0 p) (40000 / 5.0))])]])]),
      connect ''Retina'' ''V1''
        [(''name'', PStr ''Afferent''), (''delay'', PNum 0.05),
         (''seed'', PNum (som_weight_seed p)),
         (''connection_type'', PRef ''projection.CFProjection''),
         (''weights_generator'',
            PObj ''pattern.random.UniformRandom'' [(''name'', PStr ''Weights'')]),
         (''nominal_bounds_template'', BoundingBox 1.0),
         (''learning_rate'', ExponentialDecay (alpha_0 p) (40000 / 6.0)),
         (''response_fn'', PObj ''responsefn.optimized.CFPRF_EuclideanDistance_opt'' []),
         (''learning_fn'', PObj ''learningfn.projfn.CFPLF_EuclideanHebbian'' [])]]"

definition collector_setup :: "event list" where
  "collector_setup =
     [Call ''Collector'' [] [],
      Call ''c.collect'' [PRef ''measure_cog''] [],
      Call ''c.collect'' [PRef ''topo.sim.Retina''] [],
      SetAttr ''c.Activity'' ''Retina'' (PRef ''c.collect(topo.sim.Retina)''),
      Call ''c.collect'' [PRef ''topo.sim.V1''] [],
      SetAttr ''c.Activity'' ''V1'' (PRef ''c.collect(topo.sim.V1)''),
      Call ''c.collect'' [PRef ''topo.sim.V1.Afferent''] [],
      SetAttr ''c.Activity'' ''V1Afferent'' (PRef ''c.collect(topo.sim.V1.Afferent)''),
      Call ''c.collect'' [PRef ''topo.sim.V1.Afferent'']
        [(''grid'', PBool True), (''rows'', PInt 10), (''cols'', PInt 10)],
      SetAttr ''c.CFs'' ''Afferent'' (PRef ''c.collect(topo.sim.V1.Afferent, grid=True)'')]"

definition som_retinotopy :: "som_params \<Rightarrow> event list" where
  "som_retinotopy p0 = (let p = customize p0 in
     [SetAttr ''pattern_response'' ''progress_bar'' (PBool False),
      Call ''p.add'' [] som_declarations,
      SetAttr ''p'' ''retina_density'' (PInt 10),
      SetAttr ''p'' ''cortex_density'' (PInt 10)]
     @ model_definition p
     @ [Call ''topo.sim.V1.Afferent.grid'' [] [],
        Call ''measure_cog'' [] [],
        Call ''input_pattern.anim'' [PInt 30] [(''offset'', PNum 0.05)]]
     @ collector_setup
     @ [Call ''c'' [] [(''times'', PList [PInt 1])],
        Call ''topo.sim.run'' [PInt 4] [],
        Call ''topo.sim.V1.Afferent.grid'' [] [],
        Call ''topo.sim.V1.Afferent.projection_view'' [] [],
        Call ''topo.sim.run'' [PInt 245] []]
     @ map (\<lambda>i. Call ''topo.sim.time'' [] []) [1..20]
     @ [Call ''c'' [PRef ''data'']
          [(''times'', PList (map (\<lambda>i. PBinOp Mul (PRef ''topo.sim.time()'') (PInt i)) [1..20]))],
        Call ''c'' [PRef ''data'']
          [(''times'', PList (map (\<lambda>i. PInt (5000 + 250 * i)) [1..20]))],
        Call ''c'' [PRef ''data'']
          [(''times'', PList (map (\<lambda>i. PInt (10000 + 500 * i)) [1..40]))]])"

section \<open>Reading a sequence of events\<close>

text \<open>The names registered in \<^verbatim>\<open>topo.sim\<close>, in order of registration.\<close>

fun registered :: "event list \<Rightarrow> string list" where
  "registered [] = []"
| "registered (SetItem n v # evs) = n # registered evs"
| "registered (e # evs) = registered evs"

text \<open>The names of the functions called, in order.\<close>

fun calls :: "event list \<Rightarrow> string list" where
  "calls [] = []"
| "calls (Call f args kw # evs) = f # calls evs"
| "calls (e # evs) = calls evs"

text \<open>The connections created: source, destination and keyword arguments of each
  \<^verbatim>\<open>topo.sim.connect\<close>, in order.\<close>

fun connections :: "event list \<Rightarrow> (string \<times> string \<times> kwargs) list" where
  "connections [] = []"
| "connections (Call f [PStr src, PStr dest] kw # evs) =
     (if f = ''topo.sim.connect'' then (src, dest, kw) # connections evs else connections evs)"
| "connections (e # evs) = connections evs"

text \<open>Source, destination and \<^verbatim>\<open>name\<close> of each connection.\<close>

definition wiring :: "event list \<Rightarrow> (string \<times> string \<times> pyval option) list" where
  "wiring tr = map (\<lambda>(src, dest, kw). (src, dest, map_of kw ''name'')) (connections tr)"

text \<open>The object registered under a name: the last assignment to \<^verbatim>\<open>topo.sim[name]\<close>.\<close>

fun sheet_of :: "event list \<Rightarrow> string \<Rightarrow> pyval option" where
  "sheet_of [] name = None"
| "sheet_of (SetItem n v # evs) name =
     (case sheet_of evs name of Some w \<Rightarrow> Some w
      | None \<Rightarrow> if n = name then Some v else None)"
| "sheet_of (e # evs) name = sheet_of evs name"

text \<open>The value last assigned to \<^verbatim>\<open>obj.attr\<close>.\<close>

fun attr_value :: "event list \<Rightarrow> string \<Rightarrow> string \<Rightarrow> pyval option" where
  "attr_value [] obj a = None"
| "attr_value (SetAttr obj' a' v # evs) obj a =
     (case attr_value evs obj a of Some w \<Rightarrow> Some w
      | None \<Rightarrow> if obj' = obj \<and> a' = a then Some v else None)"
| "attr_value (e # evs) obj a = attr_value evs obj a"

text \<open>A keyword argument of a constructed object.\<close>

fun kwarg :: "string \<Rightarrow> pyval \<Rightarrow> pyval option" where
  "kwarg a (PObj cls kw) = map_of kw a"
| "kwarg a v = None"

text \<open>
  A parameter of an instance is the keyword argument given to the constructor, and the
  attribute set on the class before the instance was made when the constructor was given
  none.
\<close>

definition configured :: "event list \<Rightarrow> string \<Rightarrow> kwargs \<Rightarrow> string \<Rightarrow> pyval option" where
  "configured before cls kw a =
     (case map_of kw a of Some v \<Rightarrow> Some v | None \<Rightarrow> attr_value before cls a)"

text \<open>Period and phase of every \<^verbatim>\<open>GeneratorSheet\<close> registered, in order.\<close>

fun generator_sheets :: "event list \<Rightarrow> event list \<Rightarrow> (pyval option \<times> pyval option) list" where
  "generator_sheets before [] = []"
| "generator_sheets before (SetItem n (PObj cls kw) # evs) =
     (if cls = ''sheet.GeneratorSheet''
      then [(configured before cls kw ''period'', configured before cls kw ''phase'')]
      else [])
     @ generator_sheets (before @ [SetItem n (PObj cls kw)]) evs"
| "generator_sheets before (e # evs) = generator_sheets (before @ [e]) evs"

text \<open>
  Every \<^verbatim>\<open>topo.sim.connect\<close> names a source and a destination registered by an earlier
  event; \<open>reg\<close> holds the names registered so far.
\<close>

fun wired :: "string list \<Rightarrow> event list \<Rightarrow> bool" where
  "wired reg [] = True"
| "wired reg (SetItem n v # evs) = wired (n # reg) evs"
| "wired reg (SetAttr obj a v # evs) = wired reg evs"
| "wired reg (Call f args kw # evs) =
     (if f = ''topo.sim.connect''
      then (case args of
              [PStr src, PStr dest] \<Rightarrow> src \<in> set reg \<and> dest \<in> set reg \<and> wired reg evs
            | _ \<Rightarrow> False)
      else wired reg evs)"

text \<open>Invocations of the simulation loop, and the events that build the network.\<close>

fun is_run :: "event \<Rightarrow> bool" where
  "is_run (Call f args kw) = (f = ''topo.sim.run'')"
| "is_run e = False"

fun is_wiring :: "event \<Rightarrow> bool" where
  "is_wiring (SetItem n v) = True"
| "is_wiring (Call f args kw) = (f = ''topo.sim.connect'')"
| "is_wiring e = False"

text \<open>No sheet is registered and no connection made once the simulation has been run.\<close>

definition run_after_wiring :: "event list \<Rightarrow> bool" where
  "run_after_wiring tr =
     (case dropWhile (\<lambda>e. \<not> is_run e) tr of
        [] \<Rightarrow> True
      | r # rest \<Rightarrow> list_all (\<lambda>e. \<not> is_wiring e) rest)"

subsection \<open>Number generators\<close>

text \<open>
  The framework evaluates a number-generator expression when it draws a pattern. The
  random streams are the framework's: \<open>draw\<close> gives the current value of the stream of
  a \<^verbatim>\<open>UniformRandom\<close>, which its keyword arguments (bounds and seed) identify.
\<close>

fun apply_binop :: "binop \<Rightarrow> real \<Rightarrow> real \<Rightarrow> real" where
  "apply_binop Add x y = x + y"
| "apply_binop Sub x y = x - y"
| "apply_binop Mul x y = x * y"

fun value_of :: "(kwargs \<Rightarrow> real) \<Rightarrow> pyval \<Rightarrow> real option" where
  "value_of draw (PNum r) = Some r"
| "value_of draw (PInt i) = Some (of_int i)"
| "value_of draw (PObj cls kw) =
     (if cls = ''numbergen.UniformRandom'' then Some (draw kw) else None)"
| "value_of draw (PBinOp f a b) =
     (case (value_of draw a, value_of draw b) of
        (Some x, Some y) \<Rightarrow> Some (apply_binop f x y)
      | _ \<Rightarrow> None)"
| "value_of draw v = None"

text \<open>
  The \<^verbatim>\<open>scale\<close> of the i-th generator of the composite pattern that a registered sheet
  draws its input from.
\<close>

definition input_scale :: "event list \<Rightarrow> string \<Rightarrow> nat \<Rightarrow> pyval option" where
  "input_scale tr name i =
     (case sheet_of tr name of
        None \<Rightarrow> None
      | Some s \<Rightarrow>
          (case kwarg ''input_generator'' s of
             None \<Rightarrow> None
           | Some g \<Rightarrow>
               (case kwarg ''generators'' g of
                  Some (PList gs) \<Rightarrow> if i < length gs then kwarg ''scale'' (gs ! i) else None
                | _ \<Rightarrow> None)))"

definition scale_value :: "(kwargs \<Rightarrow> real) \<Rightarrow> event list \<Rightarrow> string \<Rightarrow> nat \<Rightarrow> real option" where
  "scale_value draw tr name i =
     (case input_scale tr name i of None \<Rightarrow> None | Some v \<Rightarrow> value_of draw v)"

text \<open>The stream of the brightness generator of input i, in either dataset.\<close>

definition brightness_stream :: "int \<Rightarrow> kwargs" where
  "brightness_stream seed = [(''lbound'', PInt 0), (''ubound'', PInt 2), (''seed'', PInt seed)]"

subsection \<open>Parameter declarations\<close>



text \<open>The declarations a sequence of events hands to \<^verbatim>\<open>p.add\<close>.\<close>

fun declared :: "event list \<Rightarrow> kwargs" where
  "declared [] = []"
| "declared (Call f args kw # evs) = (if f = ''p.add'' then kw else []) @ declared evs"
| "declared (e # evs) = declared evs"

subsection \<open>Sheet and projection names of gcal\_od.ty\<close>

definition retina_names :: "params \<Rightarrow> string list" where
  "retina_names p = map (\<lambda>e. e @ ''Retina'') (eyes p)"

definition lgn_names :: "params \<Rightarrow> string list" where
  "lgn_names p = concat (map (\<lambda>e. map (\<lambda>l. e @ ''LGN'' @ l) center_polarities) (eyes p))"

definition count :: "('a \<Rightarrow> bool) \<Rightarrow> 'a list \<Rightarrow> nat" where
  "count P xs = length (filter P xs)"

subsection \<open>Framework commands\<close>

text \<open>The commands the specification lists: \<^verbatim>\<open>run\<close>, \<^verbatim>\<open>connect\<close>, \<^verbatim>\<open>measure_cog\<close>
  and \<^verbatim>\<open>grid_layout\<close>.\<close>

definition listed_commands :: "string list" where
  "listed_commands = [''topo.sim.run'', ''topo.sim.connect'', ''measure_cog'', ''topo.sim.grid_layout'']"

subsection \<open>Arguments that reach the framework\<close>

text \<open>A keyword argument of the object registered under a name.\<close>

definition sheet_kwarg :: "event list \<Rightarrow> string \<Rightarrow> string \<Rightarrow> pyval option" where
  "sheet_kwarg tr name a = (case sheet_of tr name of None \<Rightarrow> None | Some s \<Rightarrow> kwarg a s)"


section \<open>Properties\<close>

subsection \<open>Reading a concatenation of events\<close>

lemma registered_append: "registered (xs @ ys) = registered xs @ registered ys"
  by (induction xs rule: registered.induct) simp_all

lemma calls_append: "calls (xs @ ys) = calls xs @ calls ys"
  by (induction xs rule: calls.induct) simp_all

lemma connections_append: "connections (xs @ ys) = connections xs @ connections ys"
  by (induction xs rule: connections.induct) simp_all

lemma eyes_cases: "eyes p = [''Left'', ''Right''] \<or> eyes p = [[]]"
  by (simp add: eyes_def)

lemmas script_defs = gcal_od_def projection_defaults_def subcortical_def
      lgn_sheet_def v1_sheet_def lgn_connections_def connect_def retina_afferent_def
      lateral_gc_def lgn_afferent_def v1_lateral_def grid_layout_def analysis_defaults_def
      center_polarities_def

lemma registered_gcal_od:
  "registered (gcal_od p) =
     concat (map (\<lambda>e. [e @ ''Retina'', e @ ''LGNOn'', e @ ''LGNOff'']) (eyes p)) @ [''V1'']"
  using eyes_cases [of p]
  by (auto simp add: script_defs registered_append)

lemma calls_gcal_od:
  "calls (gcal_od p) = [''p.add'', ''numpy.random.seed'']
     @ replicate
         (2 * length (eyes p)
          + (if gain_control p then 2 * length (eyes p) * length (eyes p) else 0)
          + 2 * length (eyes p) + 2)
         ''topo.sim.connect''
     @ [''topo.sim.grid_layout'']"
  using eyes_cases [of p]
  by (auto simp add: script_defs calls_append numeral_eq_Suc)

lemma wiring_gcal_od:
  "wiring (gcal_od p) =
     concat (map (\<lambda>e. concat (map (\<lambda>l.
         (e @ ''Retina'', e @ ''LGN'' @ l, Some (PStr ''Afferent''))
         # (if gain_control p
            then map (\<lambda>e2. (e2 @ ''LGN'' @ l, e @ ''LGN'' @ l, Some (PStr (e2 @ ''LateralGC'')))) (eyes p)
            else [])
         @ [(e @ ''LGN'' @ l, ''V1'', Some (PStr (e @ ''LGN'' @ l @ ''Afferent'')))])
       [''On'', ''Off''])) (eyes p))
     @ [(''V1'', ''V1'', Some (PStr ''LateralExcitatory'')),
        (''V1'', ''V1'', Some (PStr ''LateralInhibitory''))]"
  using eyes_cases [of p]
  by (auto simp add: script_defs connections_append wiring_def)

lemma pgs_eq: "pgs p =
     (if ''od'' \<in> set (dims p) then [''Ocular Preference''] else [])
     @ (if ''or'' \<in> set (dims p) then [''Orientation Preference''] else [])
     @ (if ''dy'' \<in> set (dims p) then [''PhaseDisparity Preference''] else [])
     @ [''Position Preference'', ''Activity'']"
  by (simp add: pgs_def preference_maps_def)


lemma attr_value_append_Some:
  "attr_value ys obj a = Some w \<Longrightarrow> attr_value (xs @ ys) obj a = Some w"
  by (induction xs obj a rule: attr_value.induct) simp_all

subsection \<open>Analysis defaults\<close>

text \<open>
  Claim C10. For every setting of \<^verbatim>\<open>p.dims\<close>, gcal\_od.ty sets
  \<^verbatim>\<open>topo.command.default_analysis_plotgroups\<close> to the preference maps of the included
  dimensions in the fixed order 'Ocular Preference' (present iff 'od' is in the
  dimensions), 'Orientation Preference' (iff 'or'), 'PhaseDisparity Preference' (iff
  'dy'), always followed by 'Position Preference' and 'Activity' as the last two entries.
\<close>

theorem plotgroups_order:
  "attr_value (gcal_od p) ''topo.command'' ''default_analysis_plotgroups'' =
     Some (PList (map PStr
       ((if ''od'' \<in> set (dims p) then [''Ocular Preference''] else [])
        @ (if ''or'' \<in> set (dims p) then [''Orientation Preference''] else [])
        @ (if ''dy'' \<in> set (dims p) then [''PhaseDisparity Preference''] else [])
        @ [''Position Preference'', ''Activity''])))"
proof -
  have "attr_value (analysis_defaults p) ''topo.command'' ''default_analysis_plotgroups'' =
      Some (PList (map PStr (pgs p)))"
    by (simp add: analysis_defaults_def)
  then have "attr_value (gcal_od p) ''topo.command'' ''default_analysis_plotgroups'' =
      Some (PList (map PStr (pgs p)))"
    unfolding gcal_od_def by (intro attr_value_append_Some)
  then show ?thesis
    by (simp only: pgs_eq)
qed

theorem plotgroups_order_witness:
  "attr_value (gcal_od default_params) ''topo.command'' ''default_analysis_plotgroups'' =
     Some (PList [PStr ''Ocular Preference'', PStr ''Orientation Preference'',
                  PStr ''Position Preference'', PStr ''Activity''])"
  using plotgroups_order [of default_params] by (simp add: default_params_def)

subsection \<open>The notebook's calls\<close>

lemma registered_map_Call [simp]: "registered (map (\<lambda>i. Call f args kw) xs) = []"
  by (induction xs) simp_all

lemma calls_map_Call [simp]: "calls (map (\<lambda>i. Call f args kw) xs) = replicate (length xs) f"
  by (induction xs) simp_all

lemma connections_map_time [simp]: "connections (map (\<lambda>i. Call f [] kw) xs) = []"
  by (induction xs) simp_all

lemma registered_som: "registered (som_retinotopy q) = [''Retina'', ''V1'']"
  by (simp add: som_retinotopy_def model_definition_def collector_setup_def connect_def
      registered_append Let_def)

lemma calls_som:
  "calls (som_retinotopy q) =
     [''p.add'', ''topo.sim.connect'', ''topo.sim.V1.Afferent.grid'', ''measure_cog'',
      ''input_pattern.anim'', ''Collector'', ''c.collect'', ''c.collect'', ''c.collect'',
      ''c.collect'', ''c.collect'', ''c'', ''topo.sim.run'', ''topo.sim.V1.Afferent.grid'',
      ''topo.sim.V1.Afferent.projection_view'', ''topo.sim.run'']
     @ replicate 20 ''topo.sim.time'' @ [''c'', ''c'', ''c'']"
  by (simp add: som_retinotopy_def model_definition_def collector_setup_def connect_def
      calls_append Let_def)

subsection \<open>Wiring of gcal\_od.ty\<close>

text \<open>
  Claim C5. Every \<^verbatim>\<open>topo.sim.connect\<close> call issued by gcal\_od.ty references only sheets
  that the script has already registered: for every setting of the dimensions and of
  gain control, the source and the destination of each connection were assigned into
  \<^verbatim>\<open>topo.sim\<close> before the connect call that uses them.
\<close>

theorem connect_after_registration: "wired [] (gcal_od p)"
  using eyes_cases [of p]
  by (auto simp add: script_defs)

theorem connect_after_registration_witness:
  "wired [] (gcal_od default_params) \<and> length (wiring (gcal_od default_params)) = 18"
  using connect_after_registration [of default_params]
  by (simp add: wiring_gcal_od eyes_def default_params_def)



subsection \<open>Dependence on the parameters\<close>

lemma eyes_cong:
  "(''od'' \<in> set (dims p) \<or> ''dy'' \<in> set (dims p)) = (''od'' \<in> set (dims q) \<or> ''dy'' \<in> set (dims q))
   \<Longrightarrow> eyes p = eyes q"
  by (simp add: eyes_def)

text \<open>
  Claim C1, as stated: for every two assignments of the global parameters the set of
  sheets registered in \<^verbatim>\<open>topo.sim\<close> and the set of connections created are identical,
  with no branching on parameter values. The script branches on the dimensions: with
  the default dimensions it registers a sheet LeftRetina, with the dimensions
  \<^verbatim>\<open>['or']\<close> it does not.
\<close>

theorem network_varies_counterexample:
  "set (registered (gcal_od default_params))
     \<noteq> set (registered (gcal_od (default_params\<lparr>dims := [''or'']\<rparr>)))"
proof
  assume same: "set (registered (gcal_od default_params))
     = set (registered (gcal_od (default_params\<lparr>dims := [''or'']\<rparr>)))"
  have "''LeftRetina'' \<in> set (registered (gcal_od default_params))"
    by (simp add: registered_gcal_od eyes_def default_params_def)
  with same have "''LeftRetina'' \<in> set (registered (gcal_od (default_params\<lparr>dims := [''or'']\<rparr>)))"
    by simp
  then show False
    by (simp add: registered_gcal_od eyes_def default_params_def)
qed

text \<open>
  Claim C1, amended. The script branches on whether 'od' or 'dy' is among the dimensions
  and on gain control. Any two assignments of the global parameters that agree on these
  two conditions register the same sheets in the same order, create the same connections
  (source, destination and name) in the same order, and issue the same sequence of
  framework calls.
\<close>

theorem network_determined_by_eyes_and_gain_control:
  assumes "(''od'' \<in> set (dims p) \<or> ''dy'' \<in> set (dims p))
             = (''od'' \<in> set (dims q) \<or> ''dy'' \<in> set (dims q))"
    and "gain_control p = gain_control q"
  shows "registered (gcal_od p) = registered (gcal_od q)
     \<and> wiring (gcal_od p) = wiring (gcal_od q)
     \<and> calls (gcal_od p) = calls (gcal_od q)"
proof -
  have "eyes p = eyes q"
    using assms(1) by (rule eyes_cong)
  with assms(2) show ?thesis
    by (simp only: registered_gcal_od wiring_gcal_od calls_gcal_od)
qed

theorem network_determined_by_eyes_and_gain_control_witness:
  "registered (gcal_od default_params)
     = registered (gcal_od (default_params\<lparr>dataset := Nature, num_inputs := 5,
         dims := [''dy''], area := 2, dim_fraction := 0.5, aff_lr := 0.2\<rparr>))
   \<and> wiring (gcal_od default_params)
     = wiring (gcal_od (default_params\<lparr>dataset := Nature, num_inputs := 5,
         dims := [''dy''], area := 2, dim_fraction := 0.5, aff_lr := 0.2\<rparr>))
   \<and> calls (gcal_od default_params)
     = calls (gcal_od (default_params\<lparr>dataset := Nature, num_inputs := 5,
         dims := [''dy''], area := 2, dim_fraction := 0.5, aff_lr := 0.2\<rparr>))"
  using network_determined_by_eyes_and_gain_control [of default_params
      "default_params\<lparr>dataset := Nature, num_inputs := 5,
         dims := [''dy''], area := 2, dim_fraction := 0.5, aff_lr := 0.2\<rparr>"]
  by (simp add: default_params_def)

subsection \<open>The simulation loop\<close>

text \<open>
  Claim C2, as stated: each of the two artifacts invokes \<^verbatim>\<open>run(n)\<close> at least once, after
  all its sheet creations and connect calls. gcal\_od.ty, with its default parameters,
  never calls \<^verbatim>\<open>topo.sim.run\<close>.
\<close>

theorem gcal_od_never_runs_counterexample:
  "''topo.sim.run'' \<notin> set (calls (gcal_od default_params))"
  by (simp add: calls_gcal_od)

lemma som_events:
  "som_retinotopy q =
     [SetAttr ''pattern_response'' ''progress_bar'' (PBool False),
      Call ''p.add'' [] som_declarations,
      SetAttr ''p'' ''retina_density'' (PInt 10),
      SetAttr ''p'' ''cortex_density'' (PInt 10)]
     @ model_definition (customize q)
     @ [Call ''topo.sim.V1.Afferent.grid'' [] [],
        Call ''measure_cog'' [] [],
        Call ''input_pattern.anim'' [PInt 30] [(''offset'', PNum 0.05)]]
     @ collector_setup
     @ [Call ''c'' [] [(''times'', PList [PInt 1])]]
     @ Call ''topo.sim.run'' [PInt 4] []
     # [Call ''topo.sim.V1.Afferent.grid'' [] [],
        Call ''topo.sim.V1.Afferent.projection_view'' [] [],
        Call ''topo.sim.run'' [PInt 245] []]
     @ map (\<lambda>i. Call ''topo.sim.time'' [] []) [1..20]
     @ [Call ''c'' [PRef ''data'']
          [(''times'', PList (map (\<lambda>i. PBinOp Mul (PRef ''topo.sim.time()'') (PInt i)) [1..20]))],
        Call ''c'' [PRef ''data'']
          [(''times'', PList (map (\<lambda>i. PInt (5000 + 250 * i)) [1..20]))],
        Call ''c'' [PRef ''data'']
          [(''times'', PList (map (\<lambda>i. PInt (10000 + 500 * i)) [1..40]))]]"
  by (simp add: som_retinotopy_def Let_def)

lemma som_run_after_wiring: "run_after_wiring (som_retinotopy q)"
  unfolding som_events run_after_wiring_def
  by (simp add: model_definition_def collector_setup_def connect_def list.pred_map comp_def
      list.pred_True)

text \<open>
  Claim C2, amended. The notebook defines its parameters, input pattern, sheets and
  projection and then invokes the simulation loop: it calls \<^verbatim>\<open>topo.sim.run\<close>, and no
  sheet is registered and no connection made after the first such call (all three wiring
  events come before it). gcal\_od.ty only defines the model: for no parameter values
  does it call \<^verbatim>\<open>topo.sim.run\<close>.
\<close>

theorem notebook_runs_after_wiring:
  "''topo.sim.run'' \<in> set (calls (som_retinotopy q))
   \<and> run_after_wiring (som_retinotopy q)
   \<and> length (filter is_wiring (som_retinotopy q)) = 3
   \<and> ''topo.sim.run'' \<notin> set (calls (gcal_od p))"
  by (simp add: som_run_after_wiring calls_som calls_gcal_od)
    (simp add: som_retinotopy_def Let_def model_definition_def collector_setup_def connect_def
      filter_map comp_def)

theorem notebook_runs_after_wiring_witness:
  "''topo.sim.run'' \<in> set (calls (som_retinotopy default_som_params))
   \<and> run_after_wiring (som_retinotopy default_som_params)
   \<and> ''topo.sim.run'' \<notin> set (calls (gcal_od (default_params\<lparr>dataset := Nature\<rparr>)))"
  using notebook_runs_after_wiring [of default_som_params "default_params\<lparr>dataset := Nature\<rparr>"]
  by simp

subsection \<open>Framework commands issued\<close>

text \<open>
  Claim C7, as stated: the framework-level commands invoked are \<^verbatim>\<open>run\<close>, \<^verbatim>\<open>connect\<close>,
  \<^verbatim>\<open>measure_cog\<close> and \<^verbatim>\<open>grid_layout\<close>, and no other. The notebook calls
  \<^verbatim>\<open>topo.sim.V1.Afferent.projection_view()\<close>, which is none of the four.
\<close>

theorem other_commands_counterexample:
  "''topo.sim.V1.Afferent.projection_view'' \<in> set (calls (som_retinotopy default_som_params))
   \<and> ''topo.sim.V1.Afferent.projection_view'' \<notin> set listed_commands"
  by (simp add: calls_som listed_commands_def)

text \<open>
  Claim C7, amended. gcal\_od.ty calls \<^verbatim>\<open>p.add\<close>, \<^verbatim>\<open>numpy.random.seed\<close>,
  \<^verbatim>\<open>topo.sim.connect\<close> and \<^verbatim>\<open>topo.sim.grid_layout\<close> and nothing else; the notebook
  calls \<^verbatim>\<open>p.add\<close>, \<^verbatim>\<open>topo.sim.connect\<close>, \<^verbatim>\<open>measure_cog\<close> and \<^verbatim>\<open>topo.sim.run\<close>, and
  besides them the projection's \<^verbatim>\<open>grid\<close> and \<^verbatim>\<open>projection_view\<close>, the input pattern's
  \<^verbatim>\<open>anim\<close>, the \<^verbatim>\<open>Collector\<close> with its \<^verbatim>\<open>collect\<close>, and \<^verbatim>\<open>topo.sim.time\<close>. Each of
  the four listed commands is called by one of the two artifacts, and the model's sheets
  are instantiated by assignment to \<^verbatim>\<open>topo.sim['Name']\<close>.
\<close>

theorem commands_issued:
  "set (calls (gcal_od p)) =
     {''p.add'', ''numpy.random.seed'', ''topo.sim.connect'', ''topo.sim.grid_layout''}
   \<and> set (calls (som_retinotopy q)) =
     {''p.add'', ''topo.sim.connect'', ''topo.sim.V1.Afferent.grid'', ''measure_cog'',
      ''input_pattern.anim'', ''Collector'', ''c.collect'', ''c'', ''topo.sim.run'',
      ''topo.sim.V1.Afferent.projection_view'', ''topo.sim.time''}
   \<and> list_all (\<lambda>f. f \<in> set (calls (gcal_od p)) \<union> set (calls (som_retinotopy q))) listed_commands
   \<and> set (registered (gcal_od p)) = set (retina_names p) \<union> set (lgn_names p) \<union> {''V1''}
   \<and> registered (som_retinotopy q) = [''Retina'', ''V1'']"
  using eyes_cases [of p]
  by (auto simp add: calls_som calls_gcal_od registered_som registered_gcal_od listed_commands_def
      retina_names_def lgn_names_def center_polarities_def)

theorem commands_issued_witness:
  "set (calls (gcal_od default_params)) =
     {''p.add'', ''numpy.random.seed'', ''topo.sim.connect'', ''topo.sim.grid_layout''}
   \<and> registered (som_retinotopy default_som_params) = [''Retina'', ''V1'']"
  using commands_issued [of default_params default_som_params]
  by simp

subsection \<open>Timing parameters\<close>

lemma generator_sheets_append:
  "generator_sheets before (xs @ ys) =
     generator_sheets before xs @ generator_sheets (before @ xs) ys"
  by (induction before xs rule: generator_sheets.induct) simp_all

lemma generator_sheets_map_Call [simp]:
  "generator_sheets before (map (\<lambda>i. Call f args kw) xs) = []"
  by (induction xs arbitrary: before) simp_all

lemma generator_sheets_gcal_od:
  "generator_sheets [] (gcal_od p) =
     map (\<lambda>e. (Some (PNum 1.0), Some (PNum 0.05))) (eyes p)"
  using eyes_cases [of p]
  by (auto simp add: script_defs generator_sheets_append configured_def lgn_sheet_type_def)

lemma generator_sheets_som:
  "generator_sheets [] (som_retinotopy q) = [(Some (PNum 1.0), Some (PNum 0.05))]"
  by (simp add: som_retinotopy_def Let_def model_definition_def collector_setup_def connect_def
      generator_sheets_append configured_def)

lemma delays_gcal_od:
  "map (\<lambda>(src, dest, kw). map_of kw ''delay'') (connections (gcal_od p)) =
     replicate (length (wiring (gcal_od p))) (Some (PNum 0.05))"
  using eyes_cases [of p]
  by (auto simp add: script_defs connections_append wiring_def)

lemma connections_som:
  "map (\<lambda>(src, dest, kw). (src, dest, map_of kw ''delay'')) (connections (som_retinotopy q)) =
     [(''Retina'', ''V1'', Some (PNum 0.05))]"
  by (simp add: som_retinotopy_def Let_def model_definition_def collector_setup_def connect_def
      connections_append)

text \<open>
  Claim C9. The scripts author no scheduling of their own; timing is expressed only as
  parameter values passed to the framework: every projection created in either artifact
  is given the delay 0.05, and every \<^verbatim>\<open>GeneratorSheet\<close> is configured with period 1.0 and
  phase 0.05 (through the constructor in gcal\_od.ty, through the class attributes set
  before the sheet is made in the notebook).
\<close>

theorem timing_parameters:
  "map (\<lambda>(src, dest, kw). map_of kw ''delay'') (connections (gcal_od p)) =
     replicate (length (connections (gcal_od p))) (Some (PNum 0.05))
   \<and> map (\<lambda>(src, dest, kw). map_of kw ''delay'') (connections (som_retinotopy q)) =
     replicate (length (connections (som_retinotopy q))) (Some (PNum 0.05))
   \<and> count (\<lambda>f. f = ''topo.sim.connect'') (calls (gcal_od p)) = length (connections (gcal_od p))
   \<and> count (\<lambda>f. f = ''topo.sim.connect'') (calls (som_retinotopy q)) =
       length (connections (som_retinotopy q))
   \<and> generator_sheets [] (gcal_od p) =
       replicate (length (eyes p)) (Some (PNum 1.0), Some (PNum 0.05))
   \<and> generator_sheets [] (som_retinotopy q) = [(Some (PNum 1.0), Some (PNum 0.05))]"
proof -
  have len: "length (connections (gcal_od p)) = length (wiring (gcal_od p))"
    by (simp add: wiring_def)
  have som: "connections (som_retinotopy q) \<noteq> [] \<and> length (connections (som_retinotopy q)) = 1
      \<and> map (\<lambda>(src, dest, kw). map_of kw ''delay'') (connections (som_retinotopy q)) = [Some (PNum 0.05)]"
    using connections_som [of q]
    by (cases "connections (som_retinotopy q)") (auto split: prod.splits)
  have cnt: "count (\<lambda>f. f = ''topo.sim.connect'') (calls (gcal_od p)) = length (wiring (gcal_od p))"
    unfolding calls_gcal_od wiring_gcal_od
    using eyes_cases [of p]
    by (auto simp add: count_def)
  have cnt2: "count (\<lambda>f. f = ''topo.sim.connect'') (calls (som_retinotopy q)) = 1"
    by (simp add: calls_som count_def)
  show ?thesis
    using som
    by (simp add: delays_gcal_od len cnt cnt2 generator_sheets_gcal_od generator_sheets_som
        map_replicate_const)
qed


theorem timing_parameters_witness:
  "generator_sheets [] (gcal_od default_params) =
     [(Some (PNum 1.0), Some (PNum 0.05)), (Some (PNum 1.0), Some (PNum 0.05))]
   \<and> generator_sheets [] (som_retinotopy default_som_params) =
     [(Some (PNum 1.0), Some (PNum 0.05))]"
  using timing_parameters [of default_params default_som_params]
  by (simp add: eyes_def default_params_def)

subsection \<open>Parameter declarations and the values handed on\<close>

lemma sheet_of_append:
  "sheet_of (xs @ ys) name =
     (case sheet_of ys name of Some w \<Rightarrow> Some w | None \<Rightarrow> sheet_of xs name)"
  by (induction xs name rule: sheet_of.induct) (simp_all split: option.splits)






lemma declared_map_Call [simp]:
  "f \<noteq> ''p.add'' \<Longrightarrow> declared (map (\<lambda>i. Call f args kw) xs) = []"
  by (induction xs) simp_all




lemma sheet_of_map_Call [simp]: "sheet_of (map (\<lambda>i. Call f args kw) xs) name = None"
  by (induction xs) simp_all

lemma attr_value_map_Call [simp]: "attr_value (map (\<lambda>i. Call f args kw) xs) obj a = None"
  by (induction xs) simp_all





subsection \<open>Brightness of the two eyes\<close>

lemma two_eyes: "''od'' \<in> set (dims p) \<or> ''dy'' \<in> set (dims p) \<Longrightarrow> eyes p = [''Left'', ''Right'']"
  by (simp add: eyes_def)

lemma input_generators:
  assumes "''od'' \<in> set (dims p) \<or> ''dy'' \<in> set (dims p)"
  shows "sheet_kwarg (gcal_od p) ''LeftRetina'' ''input_generator'' = Some (combined_inputs p ''Left'')"
    and "sheet_kwarg (gcal_od p) ''RightRetina'' ''input_generator'' = Some (combined_inputs p ''Right'')"
  using two_eyes [OF assms]
  by (auto simp add: script_defs sheet_of_append sheet_kwarg_def)

lemma xrange_nth: "0 \<le> i \<Longrightarrow> i < n \<Longrightarrow> xrange n ! nat i = i"
  by (simp add: xrange_def)

lemma xrange_length: "length (xrange n) = nat n"
  by (simp add: xrange_def)

lemma input_scale_eq:
  "input_scale tr name i =
     (case sheet_kwarg tr name ''input_generator'' of
        None \<Rightarrow> None
      | Some g \<Rightarrow>
          (case kwarg ''generators'' g of
             Some (PList gs) \<Rightarrow> if i < length gs then kwarg ''scale'' (gs ! i) else None
           | _ \<Rightarrow> None))"
  by (simp add: input_scale_def sheet_kwarg_def split: option.splits)






lemma image_filenames_length: "length image_filenames = 25"
  by (simp add: image_filenames_def xrange_length)

lemma nature_input_scale:
  assumes "dataset p = Nature" and "''od'' \<in> set (dims p) \<or> ''dy'' \<in> set (dims p)"
    and "0 \<le> i" and "i < 25"
  shows "input_scale (gcal_od p) ''LeftRetina'' (nat i) = Some (nature_scale p ''Left'' i)"
    and "input_scale (gcal_od p) ''RightRetina'' (nat i) = Some (nature_scale p ''Right'' i)"
  using assms(1,3,4)
  by (simp_all add: input_scale_eq input_generators [OF assms(2)] combined_inputs_def inputs_def
      image_filenames_length xrange_length xrange_nth nature_input_def)

lemma nature_scale_values:
  "value_of draw (nature_scale p ''Left'' i) =
     Some (draw (brightness_stream (input_seed + 4 + 5 * i)))"
  "value_of draw (nature_scale p ''Right'' i) =
     Some ((1 - dim_fraction p)
           + dim_fraction p * (2 - draw (brightness_stream (input_seed + 4 + 5 * i))))"
  by (simp_all add: nature_scale_def UniformRandom_def brightness_stream_def)

lemma nature_sum: "(u + ((1 - d) + d * (2 - u)) = 2) = (d = 1 \<or> u = 1)" for u d :: real
proof -
  have "u + ((1 - d) + d * (2 - u)) - 2 = (1 - d) * (u - 1)"
    by (simp add: algebra_simps)
  then have "(u + ((1 - d) + d * (2 - u)) = 2) = ((1 - d) * (u - 1) = 0)"
    by (metis eq_iff_diff_eq_0)
  then show ?thesis
    by auto
qed

text \<open>
  Claim C4. With the dataset 'Nature' and two eyes, the conditional expression computing
  the scale attenuates the right eye only: the right eye's scale is
  \<^verbatim>\<open>(1-dim_fraction)+dim_fraction*(2-u)\<close>, the left eye's scale is the raw draw u
  itself, because the conditional binds the whole expression. Consequently the two
  scales do not sum to 2 unless the dimming fraction is 1: for a given draw the sum is 2
  exactly when the dimming fraction is 1 or u is 1, and the sum is 2 for every draw u in
  [0,2] exactly when the dimming fraction is 1.
\<close>

theorem nature_dimming:
  assumes "dataset p = Nature" and "''od'' \<in> set (dims p) \<or> ''dy'' \<in> set (dims p)"
    and "0 \<le> i" and "i < 25"
  shows "scale_value draw (gcal_od p) ''LeftRetina'' (nat i) =
           Some (draw (brightness_stream (input_seed + 4 + 5 * i)))
       \<and> scale_value draw (gcal_od p) ''RightRetina'' (nat i) =
           Some ((1 - dim_fraction p)
                 + dim_fraction p * (2 - draw (brightness_stream (input_seed + 4 + 5 * i))))
       \<and> (draw (brightness_stream (input_seed + 4 + 5 * i))
            + ((1 - dim_fraction p)
               + dim_fraction p * (2 - draw (brightness_stream (input_seed + 4 + 5 * i)))) = 2
          \<longleftrightarrow> dim_fraction p = 1 \<or> draw (brightness_stream (input_seed + 4 + 5 * i)) = 1)
       \<and> ((\<forall>dr. 0 \<le> dr (brightness_stream (input_seed + 4 + 5 * i))
                \<and> dr (brightness_stream (input_seed + 4 + 5 * i)) \<le> 2 \<longrightarrow>
              (\<exists>a b. scale_value dr (gcal_od p) ''LeftRetina'' (nat i) = Some a
                   \<and> scale_value dr (gcal_od p) ''RightRetina'' (nat i) = Some b
                   \<and> a + b = 2))
          \<longleftrightarrow> dim_fraction p = 1)"
proof -
  let ?k = "brightness_stream (input_seed + 4 + 5 * i)"
  let ?d = "dim_fraction p"
  have l: "scale_value dr (gcal_od p) ''LeftRetina'' (nat i) = Some (dr ?k)" for dr
    by (simp add: scale_value_def nature_input_scale [OF assms] nature_scale_values)
  have r: "scale_value dr (gcal_od p) ''RightRetina'' (nat i) =
      Some ((1 - ?d) + ?d * (2 - dr ?k))" for dr
    by (simp add: scale_value_def nature_input_scale [OF assms] nature_scale_values)
  have all: "(\<forall>dr. 0 \<le> dr ?k \<and> dr ?k \<le> 2 \<longrightarrow>
              (\<exists>a b. scale_value dr (gcal_od p) ''LeftRetina'' (nat i) = Some a
                   \<and> scale_value dr (gcal_od p) ''RightRetina'' (nat i) = Some b
                   \<and> a + b = 2)) \<longleftrightarrow> ?d = 1"
  proof
    assume h: "\<forall>dr. 0 \<le> dr ?k \<and> dr ?k \<le> 2 \<longrightarrow>
              (\<exists>a b. scale_value dr (gcal_od p) ''LeftRetina'' (nat i) = Some a
                   \<and> scale_value dr (gcal_od p) ''RightRetina'' (nat i) = Some b
                   \<and> a + b = 2)"
    have "\<exists>a b. scale_value (\<lambda>k. 0) (gcal_od p) ''LeftRetina'' (nat i) = Some a
        \<and> scale_value (\<lambda>k. 0) (gcal_od p) ''RightRetina'' (nat i) = Some b \<and> a + b = 2"
      using h [rule_format, of "\<lambda>k. 0"] by simp
    then have "0 + ((1 - ?d) + ?d * (2 - 0)) = 2"
      unfolding l r by auto
    then show "?d = 1"
      by (simp add: nature_sum)
  next
    assume "?d = 1"
    then show "\<forall>dr. 0 \<le> dr ?k \<and> dr ?k \<le> 2 \<longrightarrow>
              (\<exists>a b. scale_value dr (gcal_od p) ''LeftRetina'' (nat i) = Some a
                   \<and> scale_value dr (gcal_od p) ''RightRetina'' (nat i) = Some b
                   \<and> a + b = 2)"
      unfolding l r by simp
  qed
  show ?thesis
    using l [of draw] r [of draw] all nature_sum [of "draw ?k" ?d] by simp
qed

theorem nature_dimming_witness:
  "scale_value (\<lambda>k. 1 / 2) (gcal_od (default_params\<lparr>dataset := Nature\<rparr>)) ''LeftRetina'' 3
     = Some (1 / 2)
   \<and> scale_value (\<lambda>k. 1 / 2) (gcal_od (default_params\<lparr>dataset := Nature\<rparr>)) ''RightRetina'' 3
     = Some (27 / 20)
   \<and> dim_fraction (default_params\<lparr>dataset := Nature\<rparr>) \<noteq> 1"
  using nature_dimming [of "default_params\<lparr>dataset := Nature\<rparr>" 3 "\<lambda>k. 1 / 2"]
  by (simp add: default_params_def)

end
